theory Spec2Isabelle
  imports Main
begin

section \<open>The slot enumerations of ShaderTypes.h\<close>

text \<open>
  ShaderTypes.h declares three C enumerations.  Each enumerator is written with an
  explicit value, so every enumeration is a datatype of its enumerators together with
  the function that gives each enumerator the integer written in the header.
\<close>

datatype BufferIndex =
    BufferIndexMeshPositions
  | BufferIndexMeshGenerics
  | BufferIndexSharedUniforms
  | BufferIndexInstanceUniforms

fun BufferIndex_val :: "BufferIndex \<Rightarrow> int" where
  "BufferIndex_val BufferIndexMeshPositions = 0"
| "BufferIndex_val BufferIndexMeshGenerics = 1"
| "BufferIndex_val BufferIndexSharedUniforms = 2"
| "BufferIndex_val BufferIndexInstanceUniforms = 3"

datatype TextureIndex =
    TextureIndexY
  | TextureIndexCbCr
  | TextureIndexMask

fun TextureIndex_val :: "TextureIndex \<Rightarrow> int" where
  "TextureIndex_val TextureIndexY = 0"
| "TextureIndex_val TextureIndexCbCr = 1"
| "TextureIndex_val TextureIndexMask = 8"

datatype VertexAttribute =
    VertexAttributePosition
  | VertexAttributeTexcoord
  | VertexAttributeNormal

fun VertexAttribute_val :: "VertexAttribute \<Rightarrow> int" where
  "VertexAttribute_val VertexAttributePosition = 0"
| "VertexAttribute_val VertexAttributeTexcoord = 1"
| "VertexAttribute_val VertexAttributeNormal = 2"

text \<open>The values of each enumeration, in the order of declaration.\<close>

definition BufferIndex_values :: "int list" where
  "BufferIndex_values = map BufferIndex_val
     [BufferIndexMeshPositions, BufferIndexMeshGenerics,
      BufferIndexSharedUniforms, BufferIndexInstanceUniforms]"

definition TextureIndex_values :: "int list" where
  "TextureIndex_values = map TextureIndex_val
     [TextureIndexY, TextureIndexCbCr, TextureIndexMask]"

definition VertexAttribute_values :: "int list" where
  "VertexAttribute_values = map VertexAttribute_val
     [VertexAttributePosition, VertexAttributeTexcoord, VertexAttributeNormal]"

text \<open>
  A list of slot values is contiguous from zero when its \<open>n\<close> values are pairwise
  distinct and all lie in \<open>0 ..< n\<close>; it starts at zero when the values are pairwise
  distinct, none is negative and \<open>0\<close> is one of them.
\<close>

definition contiguous_from_zero :: "int list \<Rightarrow> bool" where
  "contiguous_from_zero vs =
     (distinct vs \<and> list_all (\<lambda>v. 0 \<le> v \<and> v < int (length vs)) vs)"

definition distinct_from_zero :: "int list \<Rightarrow> bool" where
  "distinct_from_zero vs = (distinct vs \<and> list_all (\<lambda>v. 0 \<le> v) vs \<and> 0 \<in> set vs)"

section \<open>The record declarations of ShaderTypes.h\<close>

text \<open>
  The five records are C structs whose fields have the scalar types \<open>float\<close>,
  \<open>int\<close> and \<open>uint32_t\<close>, the simd types \<open>vector_float2\<close>, \<open>vector_float3\<close>
  and \<open>matrix_float4x4\<close>, and one array type (\<open>float _pad[3]\<close>).  A struct
  declaration is the list of its fields, name and type, in the order of declaration.
\<close>

datatype ctype =
    C_float
  | C_int
  | C_uint32_t
  | C_vector_float2
  | C_vector_float3
  | C_matrix_float4x4
  | C_array ctype nat

type_synonym field = "string \<times> ctype"

type_synonym struct_decl = "field list"

definition SharedUniforms :: struct_decl where
  "SharedUniforms =
     [(''viewMatrix'', C_matrix_float4x4),
      (''projectionMatrix'', C_matrix_float4x4),
      (''ambientLightColor'', C_vector_float3),
      (''directionalLightDirection'', C_vector_float3),
      (''directionalLightColor'', C_vector_float3),
      (''materialShininess'', C_float),
      (''time'', C_float),
      (''_pad'', C_array C_float 3)]"

definition InstanceUniforms :: struct_decl where
  "InstanceUniforms = [(''modelMatrix'', C_matrix_float4x4)]"

definition LayerUniforms :: struct_decl where
  "LayerUniforms =
     [(''transform'', C_matrix_float4x4),
      (''scale'', C_float),
      (''depth'', C_float),
      (''mode'', C_int),
      (''_pad'', C_float)]"

definition ShadowUniforms :: struct_decl where
  "ShadowUniforms =
     [(''lightViewMatrix'', C_matrix_float4x4),
      (''lightProjectionMatrix'', C_matrix_float4x4),
      (''shadowBias'', C_float)]"

definition Vertex :: struct_decl where
  "Vertex =
     [(''position'', C_vector_float3),
      (''texCoord'', C_vector_float2),
      (''textureIndex'', C_uint32_t)]"

definition field_type :: "struct_decl \<Rightarrow> string \<Rightarrow> ctype option" where
  "field_type s n = map_of s n"

subsection \<open>Sizes, alignments and values of the field types\<close>

text \<open>
  Modelled from the spec: the header \<open>simd/simd.h\<close>, which declares
  \<open>vector_float2\<close>, \<open>vector_float3\<close> and \<open>matrix_float4x4\<close>, is included by
  ShaderTypes.h and is not part of the repository.  The spec fixes single-precision
  (4-byte) floats, 16-byte alignment of the vector and matrix fields of the records, and
  a 4\<times>4 float matrix of 16 floats.  A type's size is a multiple of its alignment, so a
  3-component float vector occupies 16 bytes.  The 2-component vector is 8 bytes with
  8-byte alignment; it occurs once, in \<open>Vertex\<close> at offset 16, where an alignment of 16
  gives the same layout.  \<open>int\<close> and \<open>uint32_t\<close> are 32-bit integers.
\<close>

fun sizeof :: "ctype \<Rightarrow> nat" where
  "sizeof C_float = 4"
| "sizeof C_int = 4"
| "sizeof C_uint32_t = 4"
| "sizeof C_vector_float2 = 8"
| "sizeof C_vector_float3 = 16"
| "sizeof C_matrix_float4x4 = 64"
| "sizeof (C_array t n) = n * sizeof t"

fun alignof :: "ctype \<Rightarrow> nat" where
  "alignof C_float = 4"
| "alignof C_int = 4"
| "alignof C_uint32_t = 4"
| "alignof C_vector_float2 = 8"
| "alignof C_vector_float3 = 16"
| "alignof C_matrix_float4x4 = 16"
| "alignof (C_array t n) = alignof t"

text \<open>The scalar type a field type is made of, and how many scalars it holds.\<close>

fun elements :: "ctype \<Rightarrow> ctype \<times> nat" where
  "elements C_vector_float2 = (C_float, 2)"
| "elements C_vector_float3 = (C_float, 3)"
| "elements C_matrix_float4x4 = (C_float, 16)"
| "elements (C_array t n) = (fst (elements t), n * snd (elements t))"
| "elements t = (t, 1)"

text \<open>The least and the greatest value of an integer type; \<open>None\<close> for the others.\<close>

fun int_range :: "ctype \<Rightarrow> (int \<times> int) option" where
  "int_range C_int = Some (- (2 ^ 31), 2 ^ 31 - 1)"
| "int_range C_uint32_t = Some (0, 2 ^ 32 - 1)"
| "int_range t = None"

definition admits :: "ctype \<Rightarrow> int \<Rightarrow> bool" where
  "admits t v = (case int_range t of None \<Rightarrow> False | Some (lo, hi) \<Rightarrow> lo \<le> v \<and> v \<le> hi)"

definition only_non_negative :: "ctype \<Rightarrow> bool" where
  "only_non_negative t = (case int_range t of None \<Rightarrow> False | Some (lo, hi) \<Rightarrow> 0 \<le> lo)"

subsection \<open>The layout of a struct\<close>

text \<open>
  The C layout rule: the fields are placed in the order of declaration, each at the
  first offset at or after the end of the previous one that is a multiple of the field's
  alignment; the struct's alignment is the greatest alignment of its fields and its
  size is the end of the last field rounded up to the struct's alignment.
\<close>

definition align_up :: "nat \<Rightarrow> nat \<Rightarrow> nat" where
  "align_up n a = ((n + a - 1) div a) * a"

fun field_offsets_from :: "nat \<Rightarrow> struct_decl \<Rightarrow> nat list" where
  "field_offsets_from pos [] = []"
| "field_offsets_from pos ((n, t) # fs) =
     align_up pos (alignof t) # field_offsets_from (align_up pos (alignof t) + sizeof t) fs"

fun fields_end_from :: "nat \<Rightarrow> struct_decl \<Rightarrow> nat" where
  "fields_end_from pos [] = pos"
| "fields_end_from pos ((n, t) # fs) =
     fields_end_from (align_up pos (alignof t) + sizeof t) fs"

text \<open>The bytes skipped between fields to reach the fields' alignments.\<close>

fun interior_padding_from :: "nat \<Rightarrow> struct_decl \<Rightarrow> nat" where
  "interior_padding_from pos [] = 0"
| "interior_padding_from pos ((n, t) # fs) =
     (align_up pos (alignof t) - pos)
       + interior_padding_from (align_up pos (alignof t) + sizeof t) fs"

definition field_offsets :: "struct_decl \<Rightarrow> nat list" where
  "field_offsets s = field_offsets_from 0 s"

definition fields_end :: "struct_decl \<Rightarrow> nat" where
  "fields_end s = fields_end_from 0 s"

definition interior_padding :: "struct_decl \<Rightarrow> nat" where
  "interior_padding s = interior_padding_from 0 s"

definition alignof_struct :: "struct_decl \<Rightarrow> nat" where
  "alignof_struct s = foldr (\<lambda>(n, t) a. max (alignof t) a) s 1"

definition sizeof_struct :: "struct_decl \<Rightarrow> nat" where
  "sizeof_struct s = align_up (fields_end s) (alignof_struct s)"

text \<open>The bytes after the last field that round the size up to the alignment.\<close>

definition trailing_padding :: "struct_decl \<Rightarrow> nat" where
  "trailing_padding s = sizeof_struct s - fields_end s"

text \<open>
  A layout is explicit when the declared fields account for every byte of the struct:
  no bytes are skipped between fields and none are added after the last one.
\<close>

definition explicit_layout :: "struct_decl \<Rightarrow> bool" where
  "explicit_layout s = (interior_padding s = 0 \<and> trailing_padding s = 0)"

subsection \<open>The header as a list of declarations\<close>

text \<open>
  The top-level items a header of this kind can hold: an include, an enumeration with
  its values, a struct, and a static assertion on the size or on the alignment of a
  named struct (\<open>_Static_assert(sizeof(T) == n, ...)\<close>).  ShaderTypes.h consists of one
  include, the three enumerations and the five structs, in this order.
\<close>

datatype toplevel =
    Include string
  | Typedef_enum string "int list"
  | Typedef_struct string struct_decl
  | Static_assert_sizeof string nat
  | Static_assert_alignof string nat

definition ShaderTypes_h :: "toplevel list" where
  "ShaderTypes_h =
     [Include ''simd/simd.h'',
      Typedef_enum ''BufferIndex'' BufferIndex_values,
      Typedef_enum ''TextureIndex'' TextureIndex_values,
      Typedef_enum ''VertexAttribute'' VertexAttribute_values,
      Typedef_struct ''SharedUniforms'' SharedUniforms,
      Typedef_struct ''InstanceUniforms'' InstanceUniforms,
      Typedef_struct ''LayerUniforms'' LayerUniforms,
      Typedef_struct ''ShadowUniforms'' ShadowUniforms,
      Typedef_struct ''Vertex'' Vertex]"

fun records :: "toplevel list \<Rightarrow> struct_decl list" where
  "records [] = []"
| "records (Typedef_struct n s # ds) = s # records ds"
| "records (d # ds) = records ds"

fun is_layout_assertion :: "toplevel \<Rightarrow> bool" where
  "is_layout_assertion (Static_assert_sizeof n k) = True"
| "is_layout_assertion (Static_assert_alignof n k) = True"
| "is_layout_assertion d = False"

section \<open>Properties of the slot enumerations\<close>

lemma BufferIndex_UNIV:
  "(UNIV :: BufferIndex set) =
     {BufferIndexMeshPositions, BufferIndexMeshGenerics,
      BufferIndexSharedUniforms, BufferIndexInstanceUniforms}"
  by (auto intro: BufferIndex.exhaust)

lemma TextureIndex_UNIV:
  "(UNIV :: TextureIndex set) = {TextureIndexY, TextureIndexCbCr, TextureIndexMask}"
  by (auto intro: TextureIndex.exhaust)

lemma VertexAttribute_UNIV:
  "(UNIV :: VertexAttribute set) =
     {VertexAttributePosition, VertexAttributeTexcoord, VertexAttributeNormal}"
  by (auto intro: VertexAttribute.exhaust)

lemma BufferIndex_range: "range BufferIndex_val = {0, 1, 2, 3}"
  by (simp add: BufferIndex_UNIV)

lemma TextureIndex_range: "range TextureIndex_val = {0, 1, 8}"
  by (simp add: TextureIndex_UNIV)

lemma VertexAttribute_range: "range VertexAttribute_val = {0, 1, 2}"
  by (simp add: VertexAttribute_UNIV)

text \<open>The value lists leave no enumerator out: the enumerations are closed.\<close>

lemma BufferIndex_values_closed: "set BufferIndex_values = range BufferIndex_val"
  by (simp add: BufferIndex_values_def BufferIndex_range)

lemma TextureIndex_values_closed: "set TextureIndex_values = range TextureIndex_val"
  by (simp add: TextureIndex_values_def TextureIndex_range)

lemma VertexAttribute_values_closed: "set VertexAttribute_values = range VertexAttribute_val"
  by (simp add: VertexAttribute_values_def VertexAttribute_range)

text \<open>
  The list predicate means what its name says: the values are exactly the integers
  \<open>0, \<dots>, n - 1\<close>, each once.
\<close>

lemma contiguous_from_zero_iff:
  "contiguous_from_zero vs \<longleftrightarrow> distinct vs \<and> set vs = {0 ..< int (length vs)}"
proof
  assume c: "contiguous_from_zero vs"
  then have d: "distinct vs" and sub: "set vs \<subseteq> {0 ..< int (length vs)}"
    by (auto simp: contiguous_from_zero_def list_all_iff)
  have "card (set vs) = card {0 ..< int (length vs)}"
    using d by (simp add: distinct_card)
  with sub have "set vs = {0 ..< int (length vs)}"
    by (intro card_subset_eq) simp_all
  with d show "distinct vs \<and> set vs = {0 ..< int (length vs)}" by simp
next
  assume "distinct vs \<and> set vs = {0 ..< int (length vs)}"
  then show "contiguous_from_zero vs"
    by (auto simp: contiguous_from_zero_def list_all_iff)
qed

text \<open>
  Claim C9: the numeric slot assignments are: buffer slots mesh positions = 0, mesh
  generics = 1, shared uniforms = 2, instance uniforms = 3; texture slots luma (Y) = 0,
  chroma (CbCr) = 1, mask = 8, with the values 2 to 7 unassigned; vertex-attribute slots
  position = 0, texcoord = 1, normal = 2.
\<close>

theorem slot_assignments:
  "BufferIndex_val BufferIndexMeshPositions = 0 \<and>
   BufferIndex_val BufferIndexMeshGenerics = 1 \<and>
   BufferIndex_val BufferIndexSharedUniforms = 2 \<and>
   BufferIndex_val BufferIndexInstanceUniforms = 3 \<and>
   TextureIndex_val TextureIndexY = 0 \<and>
   TextureIndex_val TextureIndexCbCr = 1 \<and>
   TextureIndex_val TextureIndexMask = 8 \<and>
   range TextureIndex_val \<inter> {2 .. 7} = {} \<and>
   VertexAttribute_val VertexAttributePosition = 0 \<and>
   VertexAttribute_val VertexAttributeTexcoord = 1 \<and>
   VertexAttribute_val VertexAttributeNormal = 2"
  by (simp add: TextureIndex_range)

text \<open>
  Claim C2, as stated: every slot namespace, the texture-slot namespace in particular, is
  contiguous from zero with no gaps.  The texture slots are 0, 1 and 8, so the claim
  fails there.
\<close>

theorem texture_slots_not_contiguous:
  "\<not> contiguous_from_zero TextureIndex_values"
  by (simp add: contiguous_from_zero_def TextureIndex_values_def)

text \<open>
  Claim C2, amended: for every slot namespace the set of slot values is a closed
  enumeration of pairwise distinct non-negative integers that starts at zero; the
  buffer and the vertex-attribute namespaces are contiguous from zero with no gaps,
  and the texture namespace is \<open>{0, 1, 8}\<close>, which leaves 2 to 7 unassigned.
\<close>

theorem slot_namespaces_distinct_from_zero:
  "set BufferIndex_values = range BufferIndex_val \<and>
   set TextureIndex_values = range TextureIndex_val \<and>
   set VertexAttribute_values = range VertexAttribute_val \<and>
   distinct_from_zero BufferIndex_values \<and>
   distinct_from_zero TextureIndex_values \<and>
   distinct_from_zero VertexAttribute_values \<and>
   contiguous_from_zero BufferIndex_values \<and>
   contiguous_from_zero VertexAttribute_values \<and>
   TextureIndex_values = [0, 1, 8]"
proof -
  have "distinct_from_zero BufferIndex_values" "contiguous_from_zero BufferIndex_values"
    by (simp_all add: distinct_from_zero_def contiguous_from_zero_def
        BufferIndex_values_def)
  moreover have "distinct_from_zero VertexAttribute_values"
    "contiguous_from_zero VertexAttribute_values"
    by (simp_all add: distinct_from_zero_def contiguous_from_zero_def
        VertexAttribute_values_def)
  moreover have "distinct_from_zero TextureIndex_values" "TextureIndex_values = [0, 1, 8]"
    by (simp_all add: distinct_from_zero_def TextureIndex_values_def)
  ultimately show ?thesis
    using BufferIndex_values_closed TextureIndex_values_closed VertexAttribute_values_closed
    by blast
qed

text \<open>
  Claim C3, as stated: the value sets of the buffer-slot, texture-slot and
  vertex-attribute-slot enumerations share no numeric value.  Slot 0 is both the
  mesh-positions buffer slot and the luma texture slot.
\<close>

theorem buffer_and_texture_slots_share_zero:
  "BufferIndex_val BufferIndexMeshPositions = TextureIndex_val TextureIndexY"
  by simp

text \<open>
  Claim C3, amended: the slot identifiers form three separate small-integer
  enumerations, one per namespace; within each enumeration the values are pairwise
  distinct, while across enumerations the values overlap: 0 and 1 are slots of all
  three namespaces and 2 is both a buffer slot and a vertex-attribute slot.
\<close>

theorem slot_namespaces_overlap:
  "distinct BufferIndex_values \<and>
   distinct TextureIndex_values \<and>
   distinct VertexAttribute_values \<and>
   range BufferIndex_val \<inter> range TextureIndex_val = {0, 1} \<and>
   range TextureIndex_val \<inter> range VertexAttribute_val = {0, 1} \<and>
   range BufferIndex_val \<inter> range VertexAttribute_val = {0, 1, 2}"
proof -
  have "distinct BufferIndex_values" "distinct TextureIndex_values"
    "distinct VertexAttribute_values"
    by (simp_all add: BufferIndex_values_def TextureIndex_values_def
        VertexAttribute_values_def)
  moreover have "{0, 1, 2, 3} \<inter> {0, 1, 8} = {0, 1 :: int}"
    "{0, 1, 8} \<inter> {0, 1, 2} = {0, 1 :: int}"
    "{0, 1, 2, 3} \<inter> {0, 1, 2} = {0, 1, 2 :: int}"
    by auto
  ultimately show ?thesis
    by (simp only: BufferIndex_range TextureIndex_range VertexAttribute_range)
qed

section \<open>Properties of the layout rule\<close>

lemma alignof_pos: "0 < alignof t"
  by (induction t) simp_all

lemma alignof_dvd_sizeof: "alignof t dvd sizeof t"
  by (induction t) simp_all

lemma align_up_dvd: "a dvd align_up n a"
  by (simp add: align_up_def)

lemma align_up_ge:
  assumes "0 < a"
  shows "n \<le> align_up n a"
proof -
  have "n + a - 1 < ((n + a - 1) div a) * a + a"
    using assms div_mult_mod_eq [of "n + a - 1" a] mod_less_divisor [of a "n + a - 1"]
    by linarith
  with assms show ?thesis
    by (simp add: align_up_def)
qed

lemma align_up_less:
  assumes "0 < a"
  shows "align_up n a < n + a"
proof -
  have "((n + a - 1) div a) * a \<le> n + a - 1"
    by simp
  also have "\<dots> < n + a"
    using assms by simp
  finally show ?thesis
    unfolding align_up_def .
qed

lemma align_up_aligned: "a dvd n \<Longrightarrow> 0 < a \<Longrightarrow> align_up n a = n"
  using align_up_dvd [of a n] align_up_ge [of a n] align_up_less [of a n]
  by (metis dvd_def mult_less_cancel1 nat_less_le not_less_eq add.commute mult_Suc_right)

lemma alignof_struct_pos: "0 < alignof_struct s"
  by (induction s) (auto simp: alignof_struct_def)

lemma sizeof_struct_aligned: "alignof_struct s dvd sizeof_struct s"
  by (simp add: sizeof_struct_def align_up_dvd)

lemma trailing_padding_less: "trailing_padding s < alignof_struct s"
  using align_up_less [where a = "alignof_struct s" and n = "fields_end s"]
    alignof_struct_pos [of s]
  by (simp add: trailing_padding_def sizeof_struct_def)

lemma sizeof_struct_eq: "sizeof_struct s = fields_end s + trailing_padding s"
  using align_up_ge [where a = "alignof_struct s" and n = "fields_end s"]
    alignof_struct_pos [of s]
  by (simp add: trailing_padding_def sizeof_struct_def)

subsection \<open>The layouts of the five records\<close>

lemma SharedUniforms_layout:
  "field_offsets SharedUniforms = [0, 64, 128, 144, 160, 176, 180, 184]"
  "fields_end SharedUniforms = 196"
  "alignof_struct SharedUniforms = 16"
  "sizeof_struct SharedUniforms = 208"
  "interior_padding SharedUniforms = 0"
  "trailing_padding SharedUniforms = 12"
  by code_simp+

lemma InstanceUniforms_layout:
  "field_offsets InstanceUniforms = [0]"
  "fields_end InstanceUniforms = 64"
  "alignof_struct InstanceUniforms = 16"
  "sizeof_struct InstanceUniforms = 64"
  "interior_padding InstanceUniforms = 0"
  "trailing_padding InstanceUniforms = 0"
  by code_simp+

lemma LayerUniforms_layout:
  "field_offsets LayerUniforms = [0, 64, 68, 72, 76]"
  "fields_end LayerUniforms = 80"
  "alignof_struct LayerUniforms = 16"
  "sizeof_struct LayerUniforms = 80"
  "interior_padding LayerUniforms = 0"
  "trailing_padding LayerUniforms = 0"
  by code_simp+

lemma ShadowUniforms_layout:
  "field_offsets ShadowUniforms = [0, 64, 128]"
  "fields_end ShadowUniforms = 132"
  "alignof_struct ShadowUniforms = 16"
  "sizeof_struct ShadowUniforms = 144"
  "interior_padding ShadowUniforms = 0"
  "trailing_padding ShadowUniforms = 12"
  by code_simp+

lemma Vertex_layout:
  "field_offsets Vertex = [0, 16, 24]"
  "fields_end Vertex = 28"
  "alignof_struct Vertex = 16"
  "sizeof_struct Vertex = 32"
  "interior_padding Vertex = 0"
  "trailing_padding Vertex = 4"
  by code_simp+

lemma ShaderTypes_h_records:
  "records ShaderTypes_h =
     [SharedUniforms, InstanceUniforms, LayerUniforms, ShadowUniforms, Vertex]"
  by (simp add: ShaderTypes_h_def)

text \<open>
  No item of the header is a static assertion on the size or the alignment of a record.
  Whether the host program compares the layouts when it starts is not visible in the
  header.
\<close>

lemma ShaderTypes_h_no_layout_assertion:
  "filter is_layout_assertion ShaderTypes_h = []"
  by (simp add: ShaderTypes_h_def)

lemma field_offsets_from_aligned:
  "list_all2 (\<lambda>off (n, t). alignof t dvd off) (field_offsets_from pos s) s"
  by (induction pos s rule: field_offsets_from.induct) (simp_all add: align_up_dvd)

section \<open>The claims about the records\<close>

text \<open>
  Claim C4, as stated: every record has a fully explicit layout, and no record's total
  size depends on implicit trailing padding.  \<open>ShadowUniforms\<close> ends with the float
  \<open>shadowBias\<close> at offset 128: its fields end at byte 132 and its size is 144.
\<close>

theorem ShadowUniforms_layout_not_explicit:
  "\<not> explicit_layout ShadowUniforms"
  by (simp add: explicit_layout_def ShadowUniforms_layout)

text \<open>
  Claim C4, amended: every record type is declared with a deterministic layout in its
  declared field order: wherever the device's vector and matrix alignment rules would
  introduce a gap between fields, an explicit padding field is present, so that no
  record has implicit padding between its fields; the total sizes of
  \<open>InstanceUniforms\<close> and \<open>LayerUniforms\<close> do not depend on implicit trailing
  padding, \<open>LayerUniforms\<close> being rounded from byte 76 to its size of 80 by its
  explicit padding field, while the sizes of \<open>ShadowUniforms\<close> and \<open>Vertex\<close>
  include 12 and 4 bytes of implicit trailing padding.
\<close>

theorem record_padding:
  "map interior_padding (records ShaderTypes_h) = [0, 0, 0, 0, 0] \<and>
   explicit_layout InstanceUniforms \<and>
   explicit_layout LayerUniforms \<and>
   last LayerUniforms = (''_pad'', C_float) \<and>
   fields_end (butlast LayerUniforms) = 76 \<and>
   fields_end LayerUniforms = sizeof_struct LayerUniforms \<and>
   trailing_padding ShadowUniforms = 12 \<and>
   trailing_padding Vertex = 4"
proof -
  have "last LayerUniforms = (''_pad'', C_float)"
    by (simp add: LayerUniforms_def)
  moreover have "fields_end (butlast LayerUniforms) = 76"
    by code_simp
  ultimately show ?thesis
    by (simp add: ShaderTypes_h_records explicit_layout_def SharedUniforms_layout
        InstanceUniforms_layout LayerUniforms_layout ShadowUniforms_layout Vertex_layout)
qed

text \<open>
  Claim C5: the size of the Instance Uniform Record is exactly the size of one 4\<times>4
  single-precision float matrix, 64 bytes, with no padding, the matrix being 16-byte
  aligned.
\<close>

theorem InstanceUniforms_size:
  "map snd InstanceUniforms = [C_matrix_float4x4] \<and>
   elements C_matrix_float4x4 = (C_float, 16) \<and>
   sizeof_struct InstanceUniforms = sizeof C_matrix_float4x4 \<and>
   sizeof_struct InstanceUniforms = 64 \<and>
   interior_padding InstanceUniforms = 0 \<and>
   trailing_padding InstanceUniforms = 0 \<and>
   alignof C_matrix_float4x4 = 16 \<and>
   alignof_struct InstanceUniforms = 16"
  by (simp add: InstanceUniforms_layout) (simp add: InstanceUniforms_def)

text \<open>
  Claim C6: in the Frame Uniform Record the trailing reserved 3-float padding field is
  exactly what rounds the record to a 16-byte boundary, and the record's total size is a
  multiple of 16 bytes.  The total size is a multiple of 16, but the padding field
  misses the boundary: it begins at byte 184, right after \<open>time\<close>, and its three
  floats end at byte 196, which is not a multiple of 16; two floats would end on the
  boundary at byte 192, the way the padding field of \<open>LayerUniforms\<close> ends on that
  record's size.
\<close>

theorem SharedUniforms_pad_misses_boundary:
  "last SharedUniforms = (''_pad'', C_array C_float 3) \<and>
   fields_end (butlast SharedUniforms) = 184 \<and>
   fields_end SharedUniforms = 196 \<and>
   \<not> 16 dvd fields_end SharedUniforms \<and>
   fields_end (butlast SharedUniforms @ [(''_pad'', C_array C_float 2)]) = 192 \<and>
   fields_end LayerUniforms = sizeof_struct LayerUniforms \<and>
   16 dvd sizeof_struct SharedUniforms"
proof -
  have "last SharedUniforms = (''_pad'', C_array C_float 3)"
    by (simp add: SharedUniforms_def)
  moreover have "fields_end (butlast SharedUniforms) = 184"
    by code_simp
  moreover have "fields_end (butlast SharedUniforms @ [(''_pad'', C_array C_float 2)]) = 192"
    by code_simp
  ultimately show ?thesis
    by (simp add: SharedUniforms_layout LayerUniforms_layout)
qed

text \<open>
  Claim C7, as stated: the declared type of the \<open>mode\<close> field of the Layer Uniform
  Record admits only non-negative values.  The field is declared \<open>int\<close>, which admits
  \<open>-1\<close>.
\<close>

theorem mode_admits_negative:
  "field_type LayerUniforms ''mode'' = Some C_int \<and>
   admits C_int (- 1) \<and>
   \<not> only_non_negative C_int"
  by (simp add: field_type_def LayerUniforms_def admits_def only_non_negative_def)

text \<open>
  Claim C7, amended: the \<open>mode\<close> field of the Layer Uniform Record is a signed 32-bit
  integer: its declared type \<open>int\<close> admits every value from \<open>-2^31\<close> to \<open>2^31 - 1\<close>,
  the negative ones included, and the contract treats the field as opaque beyond being
  an integer; that it holds a small non-negative enumerant is left to the host.
\<close>

theorem mode_is_signed_int:
  "field_type LayerUniforms ''mode'' = Some C_int \<and>
   elements C_int = (C_int, 1) \<and>
   sizeof C_int = 4 \<and>
   int_range C_int = Some (- 2147483648, 2147483647) \<and>
   admits C_int 0 \<and> admits C_int 1 \<and> admits C_int (- 2147483648)"
  by (simp add: field_type_def LayerUniforms_def admits_def)

text \<open>
  Claim C8: the Vertex record consists of, in this order, the position (3
  single-precision floats), the texture coordinate (2 single-precision floats) and the
  texture index, an unsigned 32-bit integer; the field order determines the per-vertex
  memory stride: the fields lie at offsets 0, 16 and 24 of a 32-byte stride, and with
  the first two fields swapped the stride would be 48 bytes.
\<close>

theorem Vertex_fields:
  "map fst Vertex = [''position'', ''texCoord'', ''textureIndex''] \<and>
   map (elements \<circ> snd) Vertex = [(C_float, 3), (C_float, 2), (C_uint32_t, 1)] \<and>
   sizeof C_float = 4 \<and>
   sizeof C_uint32_t = 4 \<and>
   int_range C_uint32_t = Some (0, 4294967295) \<and>
   field_offsets Vertex = [0, 16, 24] \<and>
   sizeof_struct Vertex = 32 \<and>
   sizeof_struct [Vertex ! 1, Vertex ! 0, Vertex ! 2] = 48"
proof -
  have "sizeof_struct [Vertex ! 1, Vertex ! 0, Vertex ! 2] = 48"
    by code_simp
  then show ?thesis
    by (simp add: Vertex_layout) (simp add: Vertex_def)
qed

text \<open>
  Claim C10: under the simd layout rules every 3-component float vector field occupies
  16 bytes, not 12, and the record sizes are: Frame Uniform Record 208 bytes, Layer
  Uniform Record 80 bytes, Shadow Uniform Record 144 bytes, Vertex record 32 bytes.
\<close>

theorem record_sizes:
  "map sizeof (filter (\<lambda>t. t = C_vector_float3) (map snd (concat (records ShaderTypes_h))))
     = [16, 16, 16, 16] \<and>
   field_offsets SharedUniforms = [0, 64, 128, 144, 160, 176, 180, 184] \<and>
   field_offsets Vertex = [0, 16, 24] \<and>
   sizeof_struct SharedUniforms = 208 \<and>
   sizeof_struct LayerUniforms = 80 \<and>
   sizeof_struct ShadowUniforms = 144 \<and>
   sizeof_struct Vertex = 32"
proof -
  have "map sizeof (filter (\<lambda>t. t = C_vector_float3) (map snd (concat (records ShaderTypes_h))))
     = [16, 16, 16, 16]"
    by code_simp
  then show ?thesis
    by (simp add: SharedUniforms_layout LayerUniforms_layout ShadowUniforms_layout
        Vertex_layout)
qed

end
